theory Spec2Isabelle
  imports Complex_Main "HOL-Library.Product_Lexorder" "HOL-Library.Multiset"
begin

section \<open>Data model (core/models.py)\<close>

text \<open>
  A Python \<open>datetime\<close> value. The fields are natural numbers; the ranges a real
  \<open>datetime\<close> object keeps (month 1..12 and so on) are the predicate
  \<open>valid_datetime\<close> further down.
\<close>

record datetime =
  year :: nat
  month :: nat
  day :: nat
  hour :: nat
  minute :: nat
  second :: nat
  microsecond :: nat

text \<open>
  \<open>Order.STATUS_CHOICES\<close> and \<open>Export.STATUS_CHOICES\<close>. The export's values carry a
  prefix where the name is already taken by the order's, and so do the fields
  \<open>status\<close>, \<open>file\<close> and \<open>note\<close> of an export below.
\<close>

datatype order_status = Pending | Processing | Approved | Failed

datatype export_status = ExportPending | Ready | ExportFailed

text \<open>
  Rows of \<open>Company\<close>, \<open>User\<close> and \<open>Profile\<close> are never written by the tasks and views
  modelled here, so a product carries its company and an order its creator as values.
  A profile is identified by \<open>profile_pk\<close>, a company by \<open>company_pk\<close>; \<open>username\<close> is
  \<open>profile.user.username\<close>.
\<close>

record Company =
  company_pk :: nat
  name :: string
  domain :: string

record Profile =
  profile_pk :: nat
  username :: string
  company :: Company
  role :: string
  is_blocked :: bool

record Product =
  sku :: string
  name :: string
  stock_quantity :: int
  company :: Company
  is_active :: bool
  created_at :: datetime
  updated_at :: datetime

text \<open>
  An order refers to its product by primary key (\<open>product_id\<close>): the product row is
  shared by all orders for it, and its stock is what \<open>process_order\<close> mutates.
\<close>

record Order =
  reference_code :: string
  product_id :: nat
  quantity :: int
  status :: order_status
  created_by :: Profile
  has_been_processed :: bool
  created_at :: datetime
  updated_at :: datetime

record Export =
  requested_by :: Profile
  created_at :: datetime
  export_status :: export_status
  export_file :: "string option"
  export_note :: string

text \<open>
  The database tables the core reads and writes, keyed by primary key, the file storage
  behind \<open>Export.file\<close> (stored name to content) and the worker's standard output.
\<close>

record db =
  products :: "nat \<rightharpoonup> Product"
  orders :: "nat \<rightharpoonup> Order"
  exports :: "nat \<rightharpoonup> Export"
  files :: "string \<rightharpoonup> string"
  stdout :: "string list"

section \<open>Order processing (core/tasks.py, process_order)\<close>

text \<open>
  What a run of \<open>process_order\<close> takes from outside: the outcome of
  \<open>random.random() < 0.7\<close> and the clock at each \<open>save()\<close> (both models declare
  \<open>updated_at\<close> with \<open>auto_now=True\<close>, so every \<open>save()\<close> stamps it). The simulated
  latency \<open>time.sleep\<close> has no other effect.
\<close>

record process_env =
  approve :: bool
  now_processing :: datetime
  now_product :: datetime
  now_processed :: datetime

text \<open>The three ways the task returns: its message strings, as values.\<close>

datatype task_result =
    Processed string order_status
  | OrderNotFound nat
  | ProcessingError string

text \<open>Every \<open>save()\<close> of the run, in program order.\<close>

datatype db_write = SaveOrder nat Order | SaveProduct nat Product

fun apply_write :: "db \<Rightarrow> db_write \<Rightarrow> db" where
  "apply_write d (SaveOrder k v) = d\<lparr>orders := (orders d)(k \<mapsto> v)\<rparr>"
| "apply_write d (SaveProduct k v) = d\<lparr>products := (products d)(k \<mapsto> v)\<rparr>"

definition apply_writes :: "db \<Rightarrow> db_write list \<Rightarrow> db" where
  "apply_writes d ws = foldl apply_write d ws"

text \<open>
  The check-and-decrement of lines 45-54 on the locked product row: when the stock
  suffices it is reduced and the row saved, otherwise the row is not touched.
\<close>

definition try_reserve :: "datetime \<Rightarrow> Product \<Rightarrow> int \<Rightarrow> bool \<times> Product" where
  "try_reserve now product qty =
     (if stock_quantity product \<ge> qty
      then (True, product\<lparr>stock_quantity := stock_quantity product - qty,
                          Product.updated_at := now\<rparr>)
      else (False, product))"

text \<open>
  \<open>process_order\<close>. A missing order is the \<open>Order.DoesNotExist\<close> branch; a missing
  product row makes \<open>Product.objects...get\<close> raise inside the approval branch, which the
  catch-all turns into an error result after the first save.
\<close>

definition process_order :: "process_env \<Rightarrow> db \<Rightarrow> nat \<Rightarrow> task_result \<times> db_write list" where
  "process_order env d order_id =
     (case orders d order_id of
        None \<Rightarrow> (OrderNotFound order_id, [])
      | Some order0 \<Rightarrow>
          let order1 = order0\<lparr>status := Processing, Order.updated_at := now_processing env\<rparr>;
              w1 = SaveOrder order_id order1
          in if approve env then
               (case products d (product_id order1) of
                  None \<Rightarrow> (ProcessingError ''Product matching query does not exist.'', [w1])
                | Some product \<Rightarrow>
                    let (reserved, product') =
                          try_reserve (now_product env) product (quantity order1);
                        order2 = order1\<lparr>status := (if reserved then Approved else Failed),
                                       has_been_processed := True,
                                       Order.updated_at := now_processed env\<rparr>
                    in (Processed (reference_code order2) (status order2),
                        [w1] @ (if reserved then [SaveProduct (product_id order1) product'] else [])
                          @ [SaveOrder order_id order2]))
             else
               let order2 = order1\<lparr>status := Failed, has_been_processed := True,
                                  Order.updated_at := now_processed env\<rparr>
               in (Processed (reference_code order2) (status order2),
                   [w1, SaveOrder order_id order2]))"

text \<open>The database after the run.\<close>

definition run_process_order :: "process_env \<Rightarrow> db \<Rightarrow> nat \<Rightarrow> task_result \<times> db" where
  "run_process_order env d order_id =
     (let (res, ws) = process_order env d order_id in (res, apply_writes d ws))"

text \<open>
  A sequence of reservation attempts against one product row, in the order in which
  the row lock of \<open>select_for_update\<close> lets them in: each attempt is the clock at its
  save and the requested quantity. The result is the outcome of each attempt and the
  row at the end.
\<close>

fun reservations :: "Product \<Rightarrow> (datetime \<times> int) list \<Rightarrow> bool list \<times> Product" where
  "reservations product [] = ([], product)"
| "reservations product ((now, qty) # rest) =
     (let (ok, product') = try_reserve now product qty;
          (oks, product'') = reservations product' rest
      in (ok # oks, product''))"

text \<open>The total quantity of the attempts that succeeded.\<close>

fun reserved_total :: "bool list \<Rightarrow> (datetime \<times> int) list \<Rightarrow> int" where
  "reserved_total (ok # oks) ((now, qty) # rest) =
     (if ok then qty else 0) + reserved_total oks rest"
| "reserved_total _ _ = 0"

text \<open>
  A worker running jobs one after the other, and the quantity the runs took from the
  stock of product \<open>k\<close>: a run takes its order's quantity when it approves an order
  for that product, and nothing otherwise.
\<close>

fun run_jobs :: "db \<Rightarrow> (process_env \<times> nat) list \<Rightarrow> task_result list \<times> db" where
  "run_jobs d [] = ([], d)"
| "run_jobs d ((env, order_id) # jobs) =
     (let (res, d') = run_process_order env d order_id;
          (rs, d'') = run_jobs d' jobs
      in (res # rs, d''))"

definition reserved_by_run :: "process_env \<Rightarrow> db \<Rightarrow> nat \<Rightarrow> nat \<Rightarrow> int" where
  "reserved_by_run env d order_id k =
     (case orders d order_id of
        None \<Rightarrow> 0
      | Some ord \<Rightarrow>
          if product_id ord = k
             \<and> fst (process_order env d order_id) = Processed (reference_code ord) Approved
          then quantity ord else 0)"

fun reserved_by_jobs :: "db \<Rightarrow> (process_env \<times> nat) list \<Rightarrow> nat \<Rightarrow> int" where
  "reserved_by_jobs d [] k = 0"
| "reserved_by_jobs d ((env, order_id) # jobs) k =
     reserved_by_run env d order_id k
       + reserved_by_jobs (snd (run_process_order env d order_id)) jobs k"

text \<open>The rows a run saved for one order, in program order.\<close>

fun order_saves :: "nat \<Rightarrow> db_write list \<Rightarrow> Order list" where
  "order_saves k [] = []"
| "order_saves k (SaveOrder k' v # ws) =
     (if k' = k then v # order_saves k ws else order_saves k ws)"
| "order_saves k (SaveProduct k' v # ws) = order_saves k ws"

section \<open>Retrying an order (api/views.py, OrderViewSet)\<close>







datatype job = ProcessOrderJob nat | GenerateExportJob nat "nat list"




section \<open>Decimal strings\<close>

text \<open>The character of a decimal digit; only ever applied to a number below ten.\<close>

definition digit_char :: "nat \<Rightarrow> char" where
  "digit_char n = ''0123456789'' ! n"

text \<open>Python's \<open>str\<close> on a non-negative and on any integer.\<close>

fun str_nat :: "nat \<Rightarrow> string" where
  "str_nat n = (if n < 10 then [digit_char n] else str_nat (n div 10) @ [digit_char (n mod 10)])"

declare str_nat.simps [simp del]

definition str_int :: "int \<Rightarrow> string" where
  "str_int i = (if i < 0 then CHR ''-'' # str_nat (nat (- i)) else str_nat (nat i))"

section \<open>Token bucket (api/throttling.py)\<close>

text \<open>
  The class attributes of a throttle. Times are seconds as \<open>time.time()\<close> gives them,
  token counts and rates are Python numbers; both are modelled as exact reals.
\<close>

record throttle =
  capacity :: real
  refill_rate :: real
  cache_prefix :: string

definition TokenBucketThrottle :: throttle where
  "TokenBucketThrottle =
     \<lparr>capacity = 100, refill_rate = 10 / 60, cache_prefix = ''throttle_bucket''\<rparr>"


definition ProductsThrottle :: throttle where
  "ProductsThrottle =
     \<lparr>capacity = 100, refill_rate = 100 / 60, cache_prefix = ''throttle_products''\<rparr>"

definition ExportsThrottle :: throttle where
  "ExportsThrottle =
     \<lparr>capacity = 10, refill_rate = 10 / 60, cache_prefix = ''throttle_exports''\<rparr>"









text \<open>\<open>TokenBucketThrottle.wait\<close>: the seconds until the next token.\<close>

definition wait :: "throttle \<Rightarrow> real option" where
  "wait th = (if refill_rate th > 0 then Some (1 / refill_rate th) else None)"



section \<open>Export generation (core/tasks.py, generate_export)\<close>

text \<open>
  What a run of \<open>generate_export\<close> takes from outside: the file storage, which for a
  requested file name either raises (the error's text) or stores the content and gives
  the name it stored it under, and \<open>print\<close>, which may raise as well. The database
  answers every query and carries out every save.
\<close>

record export_env =
  file_save :: "string \<Rightarrow> string + string"
  print_error :: "string option"

datatype export_result =
    ExportGenerated nat
  | ExportNotFound nat
  | ExportError string

definition dquote :: char where
  "dquote = CHR 0x22"

definition newline :: char where
  "newline = CHR 0x0A"

text \<open>Python's \<open>sep.join(xs)\<close>.\<close>

fun join :: "string \<Rightarrow> string list \<Rightarrow> string" where
  "join sep [] = []"
| "join sep [x] = x"
| "join sep (x # y # ys) = x @ sep @ join sep (y # ys)"

text \<open>
  \<open>strftime('%Y-%m-%d %H:%M:%S')\<close>: \<open>%m\<close>, \<open>%d\<close>, \<open>%H\<close>, \<open>%M\<close> and \<open>%S\<close> are two digits
  with a leading zero; \<open>%Y\<close> is the year in decimal (whether a year below 1000 gets
  leading zeros depends on the platform; what is proved of the format below is for
  years of four digits).
\<close>

definition pad2 :: "nat \<Rightarrow> string" where
  "pad2 n = (if n < 10 then CHR ''0'' # str_nat n else str_nat n)"

definition strftime :: "datetime \<Rightarrow> string" where
  "strftime dt =
     str_nat (year dt) @ ''-'' @ pad2 (month dt) @ ''-'' @ pad2 (day dt) @ '' ''
       @ pad2 (hour dt) @ '':'' @ pad2 (minute dt) @ '':'' @ pad2 (second dt)"




fun status_str :: "order_status \<Rightarrow> string" where
  "status_str Pending = ''pending''"
| "status_str Processing = ''processing''"
| "status_str Approved = ''approved''"
| "status_str Failed = ''failed''"

text \<open>
  The queryset \<open>Order.objects.filter(id__in=order_ids).select_related(...)\<close>: every
  order row whose key is in the list, once, joined with its product row (an inner join,
  the foreign key not being nullable), in the order of \<open>Order.Meta.ordering\<close>, latest
  \<open>created_at\<close> first. The database decides the order among equal timestamps; here
  it is the one the sort gives.
\<close>

definition datetime_key :: "datetime \<Rightarrow> nat \<times> nat \<times> nat \<times> nat \<times> nat \<times> nat \<times> nat" where
  "datetime_key dt =
     (year dt, month dt, day dt, hour dt, minute dt, second dt, microsecond dt)"

definition order_with_product :: "db \<Rightarrow> nat \<Rightarrow> (Order \<times> Product) option" where
  "order_with_product d k =
     (case orders d k of
        None \<Rightarrow> None
      | Some ord \<Rightarrow>
          (case products d (product_id ord) of
             None \<Rightarrow> None
           | Some p \<Rightarrow> Some (ord, p)))"

definition orders_in :: "db \<Rightarrow> nat list \<Rightarrow> (Order \<times> Product) list" where
  "orders_in d order_ids =
     rev (sort_key (\<lambda>(ord, p). datetime_key (Order.created_at ord))
            (List.map_filter (order_with_product d) (remdups order_ids)))"

definition csv_header :: "string list" where
  "csv_header =
     [''Reference Code'', ''Product'', ''SKU'', ''Quantity'', ''Status'', ''Created By'',
      ''Company'', ''Created At'']"

text \<open>The cells of one order's row, each after \<open>str(cell)\<close>.\<close>

definition order_row :: "Order \<times> Product \<Rightarrow> string list" where
  "order_row op =
     (case op of (ord, p) \<Rightarrow>
        [reference_code ord, Product.name p, sku p, str_int (quantity ord),
         status_str (status ord), username (created_by ord), Company.name (Product.company p),
         strftime (Order.created_at ord)])"

definition csv_content :: "db \<Rightarrow> nat list \<Rightarrow> string list list" where
  "csv_content d order_ids = csv_header # map order_row (orders_in d order_ids)"

text \<open>The writer of lines 104-107: every cell between double quotes, as it is.\<close>

definition quote_cell :: "string \<Rightarrow> string" where
  "quote_cell cell = [dquote] @ cell @ [dquote]"

definition csv_string :: "string list list \<Rightarrow> string" where
  "csv_string rows = join [newline] (map (\<lambda>row. join '','' (map quote_cell row)) rows)"

text \<open>
  The handler of \<open>except Exception\<close>: the export row is read again and marked failed with
  the error's text; when it is gone nothing is done.
\<close>

definition mark_failed :: "db \<Rightarrow> nat \<Rightarrow> string \<Rightarrow> db" where
  "mark_failed d export_id msg =
     (case exports d export_id of
        None \<Rightarrow> d
      | Some export \<Rightarrow>
          d\<lparr>exports := (exports d)(export_id \<mapsto>
               export\<lparr>export_status := ExportFailed, export_note := msg\<rparr>)\<rparr>)"

definition generate_export ::
  "export_env \<Rightarrow> db \<Rightarrow> nat \<Rightarrow> nat list \<Rightarrow> export_result \<times> db" where
  "generate_export env d export_id order_ids =
     (case exports d export_id of
        None \<Rightarrow> (ExportNotFound export_id, d)
      | Some export \<Rightarrow>
          let content = csv_string (csv_content d order_ids);
              filename = ''export_'' @ str_nat export_id @ ''.csv''
          in (case file_save env filename of
                Inl msg \<Rightarrow> (ExportError msg, mark_failed d export_id msg)
              | Inr stored \<Rightarrow>
                  let export' = export\<lparr>export_file := Some stored, export_status := Ready\<rparr>;
                      d' = d\<lparr>files := (files d)(stored \<mapsto> content),
                             exports := (exports d)(export_id \<mapsto> export')\<rparr>
                  in (case print_error env of
                        Some msg \<Rightarrow> (ExportError msg, mark_failed d' export_id msg)
                      | None \<Rightarrow>
                          (ExportGenerated export_id,
                           d'\<lparr>stdout := stdout d' @
                                [''[NOTIFICATION] Export '' @ str_nat export_id
                                   @ '' is ready for download by ''
                                   @ username (requested_by export')]\<rparr>))))"



section \<open>Reading quoted comma-separated values\<close>

text \<open>
  A reader for the reference encoding: every field is between double quotes, a doubled
  double quote inside a field stands for one, a comma after a field starts the next
  field of the row and a newline the next row. The arguments are the field being read,
  the fields of the row so far and the rows so far. Anything else is not well formed.
\<close>

datatype csv_state = FieldStart | InField | AfterQuote

fun decode ::
  "csv_state \<Rightarrow> string \<Rightarrow> string list \<Rightarrow> string list list \<Rightarrow> string \<Rightarrow> string list list option"
  where
  "decode FieldStart field row done [] = None"
| "decode FieldStart field row done (ch # s) =
     (if ch = dquote then decode InField [] row done s else None)"
| "decode InField field row done [] = None"
| "decode InField field row done (ch # s) =
     (if ch = dquote then decode AfterQuote field row done s
      else decode InField (field @ [ch]) row done s)"
| "decode AfterQuote field row done [] = Some (done @ [row @ [field]])"
| "decode AfterQuote field row done (ch # s) =
     (if ch = dquote then decode InField (field @ [dquote]) row done s
      else if ch = CHR '','' then decode FieldStart [] (row @ [field]) done s
      else if ch = newline then decode FieldStart [] [] (done @ [row @ [field]]) s
      else None)"

definition decode_csv :: "string \<Rightarrow> string list list option" where
  "decode_csv s = decode FieldStart [] [] [] s"


section \<open>Sample data\<close>

text \<open>Rows in the manner of \<open>create_sample_data\<close>, for evaluating the functions above.\<close>

definition morning :: datetime where
  "morning = \<lparr>year = 2024, month = 5, day = 17, hour = 9, minute = 3, second = 7,
              microsecond = 0\<rparr>"

definition noon :: datetime where
  "noon = \<lparr>year = 2024, month = 5, day = 17, hour = 12, minute = 0, second = 0,
           microsecond = 0\<rparr>"

definition acme :: Company where
  "acme = \<lparr>company_pk = 1, name = ''Acme Corporation'', domain = ''acme''\<rparr>"

definition tech :: Company where
  "tech = \<lparr>company_pk = 2, name = ''Tech Solutions'', domain = ''tech''\<rparr>"

definition operator1 :: Profile where
  "operator1 = \<lparr>profile_pk = 1, username = ''operator1'', company = acme,
                 role = ''operator'', is_blocked = False\<rparr>"

definition admin2 :: Profile where
  "admin2 = \<lparr>profile_pk = 2, username = ''admin2'', company = tech,
              role = ''admin'', is_blocked = False\<rparr>"

definition widget :: Product where
  "widget = \<lparr>sku = ''ACME-001'', name = ''Widget'', stock_quantity = 10, company = acme,
              is_active = True, created_at = morning, updated_at = morning\<rparr>"

definition order_op1 :: Order where
  "order_op1 = \<lparr>reference_code = ''ORD-OP1-001'', product_id = 1, quantity = 6,
                 status = Pending, created_by = operator1, has_been_processed = False,
                 created_at = morning, updated_at = morning\<rparr>"

definition order_failed :: Order where
  "order_failed = \<lparr>reference_code = ''ORD-OP1-003'', product_id = 1, quantity = 1000,
                    status = Failed, created_by = operator1, has_been_processed = True,
                    created_at = morning, updated_at = morning\<rparr>"

definition order_op2 :: Order where
  "order_op2 = \<lparr>reference_code = ''ORD-OP1-002'', product_id = 1, quantity = 6,
                 status = Pending, created_by = operator1, has_been_processed = False,
                 created_at = noon, updated_at = noon\<rparr>"

definition export1 :: Export where
  "export1 = \<lparr>requested_by = admin2, created_at = morning, export_status = ExportPending,
               export_file = None, export_note = []\<rparr>"

definition sample_db :: db where
  "sample_db = \<lparr>products = [1 \<mapsto> widget], orders = [1 \<mapsto> order_op1, 3 \<mapsto> order_failed],
                 exports = [1 \<mapsto> export1], files = Map.empty, stdout = []\<rparr>"

definition contended_db :: db where
  "contended_db = \<lparr>products = [1 \<mapsto> widget], orders = [1 \<mapsto> order_op1, 2 \<mapsto> order_op2],
                    exports = Map.empty, files = Map.empty, stdout = []\<rparr>"

definition approving :: process_env where
  "approving = \<lparr>approve = True, now_processing = noon, now_product = noon,
                 now_processed = noon\<rparr>"



definition storing :: export_env where
  "storing = \<lparr>file_save = (\<lambda>filename. Inr (''exports/'' @ filename)), print_error = None\<rparr>"


section \<open>Order processing, branch by branch\<close>

text \<open>From here on: what the definitions above satisfy.\<close>

text \<open>The branches of \<open>process_order\<close> for an order that exists, written out.\<close>

lemma process_order_cases:
  assumes "orders d order_id = Some order0"
  shows "process_order env d order_id =
     (let order1 = order0\<lparr>status := Processing, Order.updated_at := now_processing env\<rparr>;
          failed = order1\<lparr>status := Failed, has_been_processed := True,
                           Order.updated_at := now_processed env\<rparr>;
          approved = order1\<lparr>status := Approved, has_been_processed := True,
                           Order.updated_at := now_processed env\<rparr>
      in if \<not> approve env then
           (Processed (reference_code order0) Failed,
            [SaveOrder order_id order1, SaveOrder order_id failed])
         else case products d (product_id order0) of
           None \<Rightarrow> (ProcessingError ''Product matching query does not exist.'',
                     [SaveOrder order_id order1])
         | Some product \<Rightarrow>
             if quantity order0 \<le> stock_quantity product then
               (Processed (reference_code order0) Approved,
                [SaveOrder order_id order1,
                 SaveProduct (product_id order0)
                   (product\<lparr>stock_quantity := stock_quantity product - quantity order0,
                            Product.updated_at := now_product env\<rparr>),
                 SaveOrder order_id approved])
             else
               (Processed (reference_code order0) Failed,
                [SaveOrder order_id order1, SaveOrder order_id failed]))"
  using assms
  by (simp add: process_order_def try_reserve_def Let_def split: option.splits)

section \<open>Reservations never oversell\<close>

lemma reservations_stock:
  "reservations product attempts = (oks, product') \<Longrightarrow>
     stock_quantity product' = stock_quantity product - reserved_total oks attempts"
proof (induction attempts arbitrary: product oks product')
  case Nil
  then show ?case by simp
next
  case (Cons a rest)
  obtain now qty where a: "a = (now, qty)" by (cases a)
  obtain ok p1 where s: "try_reserve now product qty = (ok, p1)"
    by (cases "try_reserve now product qty")
  obtain oks1 p2 where r: "reservations p1 rest = (oks1, p2)"
    by (cases "reservations p1 rest")
  from Cons.prems a s r have eq: "oks = ok # oks1" "product' = p2" by simp_all
  have step: "stock_quantity p1 = stock_quantity product - (if ok then qty else 0)"
    using s by (auto simp: try_reserve_def split: if_splits)
  from Cons.IH [OF r] step eq a show ?case by simp
qed

lemma reservations_nonneg:
  "0 \<le> stock_quantity product \<Longrightarrow> 0 \<le> stock_quantity (snd (reservations product attempts))"
proof (induction attempts arbitrary: product)
  case Nil
  then show ?case by simp
next
  case (Cons a rest)
  obtain now qty where a: "a = (now, qty)" by (cases a)
  have "0 \<le> stock_quantity (snd (try_reserve now product qty))"
    using Cons.prems by (simp add: try_reserve_def)
  from Cons.IH [OF this] a show ?case
    by (simp add: split_beta Let_def)
qed

lemma run_process_order_stock:
  assumes "products d k = Some p"
  shows "\<exists>p'. products (snd (run_process_order env d order_id)) k = Some p'
           \<and> stock_quantity p' = stock_quantity p - reserved_by_run env d order_id k
           \<and> (0 \<le> stock_quantity p \<longrightarrow> 0 \<le> stock_quantity p')"
proof (cases "orders d order_id")
  case None
  with assms show ?thesis
    by (simp add: run_process_order_def process_order_def reserved_by_run_def apply_writes_def)
next
  case (Some ord)
  show ?thesis
    using assms
    unfolding run_process_order_def reserved_by_run_def process_order_cases [OF Some]
    by (auto simp: Some Let_def apply_writes_def split: option.splits)
qed

lemma run_jobs_stock:
  assumes "products d k = Some p" and "0 \<le> stock_quantity p"
  shows "\<exists>p'. products (snd (run_jobs d jobs)) k = Some p'
           \<and> stock_quantity p' = stock_quantity p - reserved_by_jobs d jobs k
           \<and> 0 \<le> stock_quantity p'"
  using assms
proof (induction jobs arbitrary: d p)
  case Nil
  then show ?case by simp
next
  case (Cons job jobs)
  obtain env order_id where job: "job = (env, order_id)" by (cases job)
  let ?d1 = "snd (run_process_order env d order_id)"
  from run_process_order_stock [OF Cons.prems(1), of env order_id] Cons.prems(2)
  obtain p1 where p1: "products ?d1 k = Some p1"
    "stock_quantity p1 = stock_quantity p - reserved_by_run env d order_id k"
    "0 \<le> stock_quantity p1"
    by blast
  from Cons.IH [OF p1(1) p1(3)]
  obtain p' where "products (snd (run_jobs ?d1 jobs)) k = Some p'"
    "stock_quantity p' = stock_quantity p1 - reserved_by_jobs ?d1 jobs k"
    "0 \<le> stock_quantity p'"
    by blast
  with p1(2) show ?case
    by (simp add: job split_beta)
qed

text \<open>
  C1. One attempt succeeds exactly when the stock is at least the quantity asked for;
  a successful attempt takes exactly that quantity off the stock; a failed one leaves
  the row as it was. Hence, for a product whose stock starts non-negative and any
  sequence of attempts, after every prefix of the sequence the quantities reserved so
  far add up to at most the starting stock, and the stock is not negative. The same
  holds for the product row in the database under any sequence of runs of
  \<open>process_order\<close>.
\<close>

theorem reservations_never_oversell:
  assumes "0 \<le> stock_quantity product"
  shows "(fst (try_reserve now p qty) \<longleftrightarrow> qty \<le> stock_quantity p)
       \<and> (fst (try_reserve now p qty) \<longrightarrow>
            stock_quantity (snd (try_reserve now p qty)) = stock_quantity p - qty)
       \<and> (\<not> fst (try_reserve now p qty) \<longrightarrow> snd (try_reserve now p qty) = p)
       \<and> (\<forall>n. let (oks, product') = reservations product (take n attempts)
               in reserved_total oks (take n attempts) \<le> stock_quantity product
                \<and> 0 \<le> stock_quantity product'
                \<and> stock_quantity product'
                    = stock_quantity product - reserved_total oks (take n attempts))
       \<and> (products d k = Some product \<longrightarrow>
            (\<forall>n. \<exists>product'. products (snd (run_jobs d (take n jobs))) k = Some product'
                \<and> reserved_by_jobs d (take n jobs) k \<le> stock_quantity product
                \<and> 0 \<le> stock_quantity product'
                \<and> stock_quantity product'
                    = stock_quantity product - reserved_by_jobs d (take n jobs) k))"
proof -
  have one: "(fst (try_reserve now p qty) \<longleftrightarrow> qty \<le> stock_quantity p)
       \<and> (fst (try_reserve now p qty) \<longrightarrow>
            stock_quantity (snd (try_reserve now p qty)) = stock_quantity p - qty)
       \<and> (\<not> fst (try_reserve now p qty) \<longrightarrow> snd (try_reserve now p qty) = p)"
    by (simp add: try_reserve_def)
  have many: "let (oks, product') = reservations product (take n attempts)
               in reserved_total oks (take n attempts) \<le> stock_quantity product
                \<and> 0 \<le> stock_quantity product'
                \<and> stock_quantity product'
                    = stock_quantity product - reserved_total oks (take n attempts)" for n
  proof -
    obtain oks product' where r: "reservations product (take n attempts) = (oks, product')"
      by (cases "reservations product (take n attempts)")
    have eq: "stock_quantity product'
                = stock_quantity product - reserved_total oks (take n attempts)"
      by (rule reservations_stock [OF r])
    have nn: "0 \<le> stock_quantity product'"
      using reservations_nonneg [OF assms, of "take n attempts"] r by simp
    from eq nn r show ?thesis by simp
  qed
  have runs: "\<exists>product'. products (snd (run_jobs d (take n jobs))) k = Some product'
                \<and> reserved_by_jobs d (take n jobs) k \<le> stock_quantity product
                \<and> 0 \<le> stock_quantity product'
                \<and> stock_quantity product'
                    = stock_quantity product - reserved_by_jobs d (take n jobs) k"
    if "products d k = Some product" for n
    using run_jobs_stock [OF that assms, of "take n jobs"] by auto
  from one many runs show ?thesis by blast
qed

theorem reservations_never_oversell_witness:
  "0 \<le> stock_quantity widget
   \<and> fst (try_reserve noon widget 6)
   \<and> stock_quantity (snd (try_reserve noon widget 6)) = 4
   \<and> \<not> fst (try_reserve noon widget 11)
   \<and> snd (try_reserve noon widget 11) = widget
   \<and> fst (reservations widget [(noon, 6), (noon, 6)]) = [True, False]
   \<and> reserved_total [True, False] [(noon, 6), (noon, 6)] = 6
   \<and> stock_quantity (snd (reservations widget [(noon, 6), (noon, 6)])) = 4
   \<and> products contended_db 1 = Some widget
   \<and> fst (run_jobs contended_db [(approving, 1), (approving, 2)])
       = [Processed ''ORD-OP1-001'' Approved, Processed ''ORD-OP1-002'' Failed]
   \<and> reserved_by_jobs contended_db [(approving, 1), (approving, 2)] 1 = 6
   \<and> products (snd (run_jobs contended_db [(approving, 1), (approving, 2)])) 1
       = Some (widget\<lparr>stock_quantity := 4, Product.updated_at := noon\<rparr>)"
proof -
  have h: "0 \<le> stock_quantity widget"
    by (simp add: widget_def)
  have runs: "products contended_db 1 = Some widget"
    "fst (run_jobs contended_db [(approving, 1), (approving, 2)])
       = [Processed ''ORD-OP1-001'' Approved, Processed ''ORD-OP1-002'' Failed]"
    "reserved_by_jobs contended_db [(approving, 1), (approving, 2)] 1 = 6"
    "products (snd (run_jobs contended_db [(approving, 1), (approving, 2)])) 1
       = Some (widget\<lparr>stock_quantity := 4, Product.updated_at := noon\<rparr>)"
    by (simp_all add: contended_db_def run_process_order_def process_order_def
        reserved_by_run_def apply_writes_def try_reserve_def order_op1_def order_op2_def
        widget_def approving_def)
  show ?thesis
    using h runs
      reservations_never_oversell [OF h, of noon widget 6 "[(noon, 6), (noon, 6)]"]
      reservations_never_oversell [OF h, of noon widget 11 "[(noon, 6), (noon, 6)]"]
    by (simp add: widget_def try_reserve_def)
qed

section \<open>Order processing ends in a terminal state\<close>

text \<open>
  C3. For an order that exists when the job runs: the run completes (without the
  catch-all) whenever the decision is a rejection or the product row is there; and
  every run that completes saves the order exactly twice, first as \<open>processing\<close> with
  the flag as it was, last with \<open>has_been_processed\<close> set and the status \<open>approved\<close>
  or \<open>failed\<close> (approved exactly when the decision was an approval and the stock
  sufficed), and the last save is what the database holds at the end.
\<close>

theorem process_order_marks_processed:
  assumes "orders d order_id = Some order0"
  shows "((\<not> approve env \<or> products d (product_id order0) \<noteq> None) \<longrightarrow>
            (\<exists>ref st. fst (process_order env d order_id) = Processed ref st))
       \<and> (\<forall>ref st ws. process_order env d order_id = (Processed ref st, ws) \<longrightarrow>
            (\<exists>o1 o2. order_saves order_id ws = [o1, o2]
               \<and> has_been_processed o1 = has_been_processed order0
               \<and> status o1 = Processing
               \<and> has_been_processed o2
               \<and> (status o2 = Approved \<or> status o2 = Failed)
               \<and> status o2 \<noteq> Pending \<and> status o2 \<noteq> Processing
               \<and> st = status o2
               \<and> (status o2 = Approved \<longleftrightarrow>
                    approve env \<and> (\<exists>p. products d (product_id order0) = Some p
                                       \<and> quantity order0 \<le> stock_quantity p))
               \<and> orders (snd (run_process_order env d order_id)) order_id = Some o2))"
  unfolding run_process_order_def process_order_cases [OF assms]
  by (auto simp: Let_def apply_writes_def split: option.splits)

theorem process_order_marks_processed_witness:
  "orders sample_db 1 = Some order_op1
   \<and> process_order approving sample_db 1
       = (Processed ''ORD-OP1-001'' Approved,
          [SaveOrder 1 (order_op1\<lparr>status := Processing, Order.updated_at := noon\<rparr>),
           SaveProduct 1 (widget\<lparr>stock_quantity := 4, Product.updated_at := noon\<rparr>),
           SaveOrder 1 (order_op1\<lparr>status := Approved, has_been_processed := True,
                                  Order.updated_at := noon\<rparr>)])
   \<and> orders (snd (run_process_order approving sample_db 1)) 1
       = Some (order_op1\<lparr>status := Approved, has_been_processed := True,
                         Order.updated_at := noon\<rparr>)"
proof -
  have h: "orders sample_db 1 = Some order_op1"
    by (simp add: sample_db_def)
  show ?thesis
    using h process_order_marks_processed [OF h, of approving]
    by (simp add: sample_db_def process_order_def run_process_order_def apply_writes_def
        try_reserve_def order_op1_def widget_def approving_def)
qed

section \<open>What a run of order processing leaves alone\<close>

text \<open>
  C9, as the code has it. A run writes nothing but the referenced order and, when the
  decision is an approval and the stock suffices, the referenced product. Of the order
  it changes at most \<open>status\<close>, \<open>has_been_processed\<close> and \<open>updated_at\<close> (stamped by every
  \<open>save()\<close>); of the product \<open>stock_quantity\<close> and \<open>updated_at\<close>. With no such order
  nothing is written.
\<close>

theorem process_order_frame:
  assumes "run_process_order env d order_id = (res, d')"
  shows "(\<forall>k. k \<noteq> order_id \<longrightarrow> orders d' k = orders d k)
       \<and> exports d' = exports d \<and> files d' = files d \<and> stdout d' = stdout d
       \<and> (orders d order_id = None \<longrightarrow> d' = d)
       \<and> (\<forall>ord. orders d order_id = Some ord \<longrightarrow>
            (\<exists>ord'. orders d' order_id = Some ord'
               \<and> ord' = ord\<lparr>status := status ord',
                             has_been_processed := has_been_processed ord',
                             Order.updated_at := Order.updated_at ord'\<rparr>)
          \<and> (\<forall>k. k \<noteq> product_id ord \<longrightarrow> products d' k = products d k)
          \<and> (products d (product_id ord) = None \<longrightarrow> products d' = products d)
          \<and> (\<forall>p. products d (product_id ord) = Some p \<longrightarrow>
                (if approve env \<and> quantity ord \<le> stock_quantity p
                 then products d' (product_id ord)
                        = Some (p\<lparr>stock_quantity := stock_quantity p - quantity ord,
                                   Product.updated_at := now_product env\<rparr>)
                 else products d' = products d)))"
proof (cases "orders d order_id")
  case None
  with assms show ?thesis
    by (auto simp: run_process_order_def process_order_def apply_writes_def)
next
  case (Some ord)
  from assms show ?thesis
    unfolding run_process_order_def process_order_cases [OF Some]
    by (auto simp: Some Let_def apply_writes_def split: option.splits if_splits)
qed

theorem process_order_frame_witness:
  "run_process_order approving sample_db 1
     = (Processed ''ORD-OP1-001'' Approved,
        sample_db\<lparr>products := [1 \<mapsto> widget\<lparr>stock_quantity := 4, Product.updated_at := noon\<rparr>],
                  orders := [1 \<mapsto> order_op1\<lparr>status := Approved, has_been_processed := True,
                                               Order.updated_at := noon\<rparr>,
                             3 \<mapsto> order_failed]\<rparr>)
   \<and> orders (snd (run_process_order approving sample_db 1)) 3 = Some order_failed
   \<and> exports (snd (run_process_order approving sample_db 1)) = exports sample_db"
proof -
  have h: "run_process_order approving sample_db 1
     = (Processed ''ORD-OP1-001'' Approved,
        sample_db\<lparr>products := [1 \<mapsto> widget\<lparr>stock_quantity := 4, Product.updated_at := noon\<rparr>],
                  orders := [1 \<mapsto> order_op1\<lparr>status := Approved, has_been_processed := True,
                                               Order.updated_at := noon\<rparr>,
                             3 \<mapsto> order_failed]\<rparr>)"
    by (simp add: sample_db_def process_order_def run_process_order_def apply_writes_def
        try_reserve_def order_op1_def widget_def approving_def fun_upd_twist)
  show ?thesis
    using h process_order_frame [OF h]
    by (simp add: sample_db_def)
qed

text \<open>
  The run changes the order's \<open>updated_at\<close>, a field other than \<open>status\<close> and
  \<open>has_been_processed\<close>.
\<close>

theorem process_order_touches_updated_at:
  "Order.updated_at (the (orders (snd (run_process_order approving sample_db 1)) 1))
     \<noteq> Order.updated_at (the (orders sample_db 1))"
  by (simp add: sample_db_def process_order_def run_process_order_def apply_writes_def
      try_reserve_def order_op1_def widget_def approving_def noon_def morning_def)

section \<open>Retry\<close>




section \<open>Token bucket\<close>











section \<open>The token count stays within its bounds\<close>





section \<open>Export generation never leaves the export pending\<close>




section \<open>The export artifact\<close>
















section \<open>The rows of an export\<close>

lemma mset_map_filter:
  "mset (List.map_filter g xs) =
     image_mset (\<lambda>x. the (g x)) (filter_mset (\<lambda>x. g x \<noteq> None) (mset xs))"
  by (induction xs) (auto simp: List.map_filter_simps split: option.splits)

lemma mset_orders_in:
  "mset (orders_in d order_ids) =
     image_mset (\<lambda>k. the (order_with_product d k))
       (mset_set {k \<in> set order_ids. order_with_product d k \<noteq> None})"
proof -
  have "mset (remdups order_ids) = mset_set (set order_ids)"
    using mset_set_set [of "remdups order_ids"] by simp
  then show ?thesis
    by (simp add: orders_in_def mset_map_filter filter_mset_mset_set)
qed

lemma set_map_filter: "set (List.map_filter g xs) = {y. \<exists>x \<in> set xs. g x = Some y}"
  by (induction xs) (auto simp: List.map_filter_simps split: option.splits)

lemma order_with_product_Some:
  "order_with_product d k = Some (ord, p) \<longleftrightarrow>
     orders d k = Some ord \<and> products d (product_id ord) = Some p"
  by (auto simp: order_with_product_def split: option.splits)

lemma set_orders_in:
  "set (orders_in d order_ids) =
     {(ord, p). \<exists>k \<in> set order_ids. orders d k = Some ord \<and> products d (product_id ord) = Some p}"
  by (auto simp: orders_in_def set_map_filter order_with_product_Some)

lemma order_with_product_exports:
  "order_with_product (d\<lparr>exports := ex\<rparr>) = order_with_product d"
  by (rule ext) (simp add: order_with_product_def split: option.splits)

lemma orders_in_exports:
  "orders_in (d\<lparr>exports := ex\<rparr>) order_ids = orders_in d order_ids"
  by (simp add: orders_in_def order_with_product_exports)

lemma stored_artifact:
  assumes "exports d export_id = Some export"
    and "file_save env (''export_'' @ str_nat export_id @ ''.csv'') = Inr stored"
  shows "files (snd (generate_export env d export_id order_ids)) stored
           = Some (csv_string (csv_content d order_ids))"
  using assms
  by (auto simp: generate_export_def mark_failed_def Let_def split: option.splits)

text \<open>
  C8. The rows of the artifact after the header are the rows of the orders the query
  yields. Every order row whose key is in the list (and whose product row is there
  for the join) has its row in the artifact, whatever company it belongs to: the rows
  do not depend on the export row or on who requested it. Each key counts once however
  often the list repeats it. Whenever the storage stores the file, the file holds
  exactly this artifact.
\<close>

theorem export_includes_every_listed_order:
  "(\<forall>k \<in> set order_ids. \<forall>ord p.
       orders d k = Some ord \<and> products d (product_id ord) = Some p \<longrightarrow>
       order_row (ord, p) \<in> set (tl (csv_content d order_ids)))
   \<and> tl (csv_content d order_ids) = map order_row (orders_in d order_ids)
   \<and> mset (orders_in d order_ids) =
       image_mset (\<lambda>k. the (order_with_product d k))
         (mset_set {k \<in> set order_ids. order_with_product d k \<noteq> None})
   \<and> length (tl (csv_content d order_ids)) =
       card {k \<in> set order_ids. order_with_product d k \<noteq> None}
   \<and> csv_content (d\<lparr>exports := ex\<rparr>) order_ids = csv_content d order_ids
   \<and> (\<forall>export stored.
         exports d export_id = Some export
         \<and> file_save env (''export_'' @ str_nat export_id @ ''.csv'') = Inr stored \<longrightarrow>
         files (snd (generate_export env d export_id order_ids)) stored
           = Some (csv_string (csv_content d order_ids)))"
proof -
  have rows: "tl (csv_content d order_ids) = map order_row (orders_in d order_ids)"
    by (simp add: csv_content_def)
  have covers: "\<forall>k \<in> set order_ids. \<forall>ord p.
       orders d k = Some ord \<and> products d (product_id ord) = Some p \<longrightarrow>
       order_row (ord, p) \<in> set (tl (csv_content d order_ids))"
    unfolding rows by (auto simp: set_orders_in)
  have "size (mset (orders_in d order_ids)) =
          card {k \<in> set order_ids. order_with_product d k \<noteq> None}"
    unfolding mset_orders_in by simp
  then have count: "length (tl (csv_content d order_ids)) =
       card {k \<in> set order_ids. order_with_product d k \<noteq> None}"
    unfolding rows by simp
  have same: "csv_content (d\<lparr>exports := ex\<rparr>) order_ids = csv_content d order_ids"
    by (simp add: csv_content_def orders_in_exports)
  from covers rows mset_orders_in [of d order_ids] count same stored_artifact [of d export_id _ env _ order_ids]
  show ?thesis by blast
qed

theorem export_includes_every_listed_order_witness:
  "company_pk (Profile.company (requested_by export1)) \<noteq> company_pk (Product.company widget)
   \<and> orders sample_db 1 = Some order_op1
   \<and> products sample_db (product_id order_op1) = Some widget
   \<and> orders sample_db 99 = None
   \<and> tl (csv_content sample_db [1, 1, 3, 99])
       = [order_row (order_failed, widget), order_row (order_op1, widget)]
   \<and> card {k \<in> set [1, 1, 3, 99]. order_with_product sample_db k \<noteq> None} = 2
   \<and> exports sample_db 1 = Some export1
   \<and> file_save storing (''export_'' @ str_nat 1 @ ''.csv'') = Inr ''exports/export_1.csv''
   \<and> files (snd (generate_export storing sample_db 1 [1, 1, 3, 99])) ''exports/export_1.csv''
       = Some (csv_string (csv_content sample_db [1, 1, 3, 99]))"
proof -
  have rows: "orders_in sample_db [1, 1, 3, 99] = [(order_failed, widget), (order_op1, widget)]"
    by (simp add: orders_in_def sample_db_def order_with_product_def List.map_filter_simps
        order_op1_def order_failed_def datetime_key_def)
  have h: "exports sample_db 1 = Some export1"
    "file_save storing (''export_'' @ str_nat 1 @ ''.csv'') = Inr ''exports/export_1.csv''"
    "orders sample_db 1 = Some order_op1"
    "products sample_db (product_id order_op1) = Some widget"
    "orders sample_db 99 = None"
    "company_pk (Profile.company (requested_by export1)) \<noteq> company_pk (Product.company widget)"
    by (simp_all add: sample_db_def storing_def str_nat.simps digit_char_def order_op1_def
        export1_def admin2_def tech_def widget_def acme_def)
  have t: "tl (csv_content sample_db [1, 1, 3, 99])
       = [order_row (order_failed, widget), order_row (order_op1, widget)]"
    using rows by (simp add: csv_content_def)
  have c: "length (tl (csv_content sample_db [1, 1, 3, 99])) =
       card {k \<in> set [1, 1, 3, 99]. order_with_product sample_db k \<noteq> None}"
    using export_includes_every_listed_order [of "[1, 1, 3, 99]" sample_db _ 1 storing]
    by blast
  have c2: "card {k \<in> set [1, 1, 3, 99]. order_with_product sample_db k \<noteq> None} = 2"
    unfolding c [symmetric] t by simp
  have f: "files (snd (generate_export storing sample_db 1 [1, 1, 3, 99])) ''exports/export_1.csv''
       = Some (csv_string (csv_content sample_db [1, 1, 3, 99]))"
    using export_includes_every_listed_order [of "[1, 1, 3, 99]" sample_db _ 1 storing] h(1,2)
    by blast
  show ?thesis
    using h t c2 f by simp
qed

section \<open>Quoting without escaping\<close>


























text \<open>
  With double quotes in a cell the reader may still accept the text, and then reads
  other cells than were written: two double quotes are read as one.
\<close>

lemma doubled_quote_read_as_one:
  "decode_csv (csv_string [[[dquote, dquote]]]) = Some [[[dquote]]]"
  by (simp add: csv_string_def quote_cell_def decode_csv_def dquote_def)

end
